theory Spec2Isabelle
  imports Main "HOL-Library.AList"
begin

section \<open>JavaScript primitives used by the profile engine\<close>

text \<open>
  The engine is TypeScript. Its strings are modelled as \<open>string\<close> (ASCII text), its
  numbers as \<open>jsnum\<close>: an integer or \<open>NaN\<close>, which is what \<open>parseInt\<close> returns.
  Scope of the model: the input is ASCII; every numeral is small enough to be an exact
  double; file, function and event names are ordinary keys (not the name of a member of
  \<open>Object.prototype\<close>, not a canonical array index, and no event is called
  \<open>executed\<close>). Objects used as dictionaries are association lists in insertion order;
  assigning to an existing key keeps its position (\<open>AList.update\<close>).
\<close>

datatype jsnum = NaN | Num int

datatype error = TypeError

definition isWhiteSpace :: "char \<Rightarrow> bool" where
  "isWhiteSpace c \<longleftrightarrow>
     c = CHR '' '' \<or> c = CHR 0x09 \<or> c = CHR 0x0A \<or> c = CHR 0x0B \<or> c = CHR 0x0C \<or> c = CHR 0x0D"

definition trim :: "string \<Rightarrow> string" where
  "trim s = rev (dropWhile isWhiteSpace (rev (dropWhile isWhiteSpace s)))"

definition startsWith :: "string \<Rightarrow> string \<Rightarrow> bool" where
  "startsWith s p \<longleftrightarrow> take (length p) s = p"

fun isPrefixAt :: "string \<Rightarrow> string \<Rightarrow> bool" where
  "isPrefixAt [] s = True"
| "isPrefixAt (p # ps) [] = False"
| "isPrefixAt (p # ps) (c # cs) = (p = c \<and> isPrefixAt ps cs)"

fun includesStr :: "string \<Rightarrow> string \<Rightarrow> bool" where
  "includesStr [] p = (p = [])"
| "includesStr (c # cs) p = (isPrefixAt p (c # cs) \<or> includesStr cs p)"

text \<open>\<open>s.split(c)\<close> for a one-character separator: always at least one part.\<close>

fun splitChar :: "char \<Rightarrow> string \<Rightarrow> string list" where
  "splitChar c [] = [[]]"
| "splitChar c (x # xs) =
     (if x = c then [] # splitChar c xs
      else (case splitChar c xs of [] \<Rightarrow> [[x]] | p # ps \<Rightarrow> (x # p) # ps))"

text \<open>\<open>s.split(/[...]+/)\<close> for a character class: a run of separator characters is
  one separator; a leading or trailing run leaves an empty first or last part, and the
  empty string gives one empty part.\<close>

function splitRuns :: "(char \<Rightarrow> bool) \<Rightarrow> string \<Rightarrow> string list" where
  "splitRuns sep [] = [[]]"
| "splitRuns sep (x # xs) =
     (if sep x then [] # splitRuns sep (dropWhile sep xs)
      else (case splitRuns sep xs of [] \<Rightarrow> [[x]] | p # ps \<Rightarrow> (x # p) # ps))"
  by pat_completeness auto
termination
  by (relation "measure (\<lambda>(sep, s). length s)") (auto simp: length_dropWhile_le le_imp_less_Suc)

text \<open>\<open>s.split(/\s+/)\<close>.\<close>

definition splitWs :: "string \<Rightarrow> string list" where
  "splitWs s = splitRuns isWhiteSpace s"

text \<open>The second element of an array, \<open>a[1]\<close>; the callers below only index arrays
  that have one (the line starts with a prefix that contains the separator).\<close>

definition secondPart :: "string list \<Rightarrow> string" where
  "secondPart ps = (case ps of _ # p # _ \<Rightarrow> p | _ \<Rightarrow> [])"

definition digitValue :: "char \<Rightarrow> nat option" where
  "digitValue c =
     (let n = (of_char c :: nat) in
      if 48 \<le> n \<and> n \<le> 57 then Some (n - 48)
      else if 97 \<le> n \<and> n \<le> 102 then Some (n - 87)
      else if 65 \<le> n \<and> n \<le> 70 then Some (n - 55)
      else None)"

definition isDigitIn :: "nat \<Rightarrow> char \<Rightarrow> bool" where
  "isDigitIn radix c = (case digitValue c of None \<Rightarrow> False | Some d \<Rightarrow> d < radix)"

definition digitsValue :: "nat \<Rightarrow> string \<Rightarrow> nat" where
  "digitsValue radix z =
     foldl (\<lambda>acc c. acc * radix + (case digitValue c of None \<Rightarrow> 0 | Some d \<Rightarrow> d)) 0 z"

text \<open>\<open>parseInt(s)\<close> and \<open>parseInt(s, 16)\<close>: leading white space, a sign, an optional
  \<open>0x\<close> prefix (which selects radix 16), then the longest run of digits; \<open>NaN\<close> when
  that run is empty.\<close>

definition parseIntFrom :: "bool \<Rightarrow> string \<Rightarrow> jsnum" where
  "parseIntFrom hex s =
     (let s1 = dropWhile isWhiteSpace s;
          neg = startsWith s1 ''-'';
          s2 = (if startsWith s1 ''-'' \<or> startsWith s1 ''+'' then drop 1 s1 else s1);
          pre = (startsWith s2 ''0x'' \<or> startsWith s2 ''0X'');
          radix = (if hex \<or> pre then 16 else 10);
          s3 = (if pre then drop 2 s2 else s2);
          z = takeWhile (isDigitIn radix) s3
      in if z = [] then NaN
         else Num ((if neg then - 1 else 1) * int (digitsValue radix z)))"

definition parseInt :: "string \<Rightarrow> jsnum" where
  "parseInt s = parseIntFrom False s"

definition parseInt16 :: "string \<Rightarrow> jsnum" where
  "parseInt16 s = parseIntFrom True s"

definition isPositive :: "jsnum \<Rightarrow> bool" where
  "isPositive v = (case v of NaN \<Rightarrow> False | Num n \<Rightarrow> 0 < n)"

definition jsAdd :: "jsnum \<Rightarrow> jsnum \<Rightarrow> jsnum" where
  "jsAdd a b = (case (a, b) of (Num x, Num y) \<Rightarrow> Num (x + y) | _ \<Rightarrow> NaN)"

text \<open>\<open>(o[k] as number || 0)\<close>: a missing key, \<open>NaN\<close> and \<open>0\<close> are all falsy.\<close>

definition orZero :: "jsnum option \<Rightarrow> jsnum" where
  "orZero v = (case v of Some (Num n) \<Rightarrow> Num n | _ \<Rightarrow> Num 0)"

text \<open>\<open>o[k] += c\<close>: a missing key reads as \<open>undefined\<close>, and \<open>undefined + c\<close> is \<open>NaN\<close>.\<close>

definition plusAssign :: "string \<Rightarrow> jsnum \<Rightarrow> (string \<times> jsnum) list \<Rightarrow> (string \<times> jsnum) list" where
  "plusAssign k c obj =
     AList.update k (case map_of obj k of None \<Rightarrow> NaN | Some v \<Rightarrow> jsAdd v c) obj"

text \<open>\<open>counts.forEach((count, idx) => { o[events[idx]] = count })\<close>.\<close>

definition assignAll :: "string list \<Rightarrow> jsnum list \<Rightarrow> (string \<times> jsnum) list \<Rightarrow> (string \<times> jsnum) list" where
  "assignAll evs counts obj = foldl (\<lambda>acc (e, c). AList.update e c acc) obj (zip evs counts)"

definition truthy :: "string option \<Rightarrow> bool" where
  "truthy v = (case v of None \<Rightarrow> False | Some s \<Rightarrow> s \<noteq> [])"

section \<open>The data model of the parser (types/profiler.ts)\<close>

record LineData =
  ld_counts :: "(string \<times> jsnum) list"
  ld_executed :: bool

record PcLineData =
  pl_pc :: string
  pl_line :: jsnum
  pl_events :: "(string \<times> jsnum) list"
  pl_executed :: bool

record CallInfo =
  targetFile :: "string option"
  targetFunction :: "string option"
  ci_count :: int
  sourcePc :: string

record FunctionData =
  fd_lines :: "(jsnum \<times> LineData) list"
  totals :: "(string \<times> jsnum) list"
  coveredLines :: "jsnum list"
  uncoveredLines :: "jsnum list"
  pcData :: "(string \<times> PcLineData) list option"
  fd_calls :: "CallInfo list option"

record FileInfo =
  fi_functions :: "(string \<times> FunctionData) list"
  objectFile :: "string option"

text \<open>The fields of \<open>CachegrindParser\<close>, with the two locals of \<open>parse\<close>
  (\<open>currentFile\<close>, \<open>currentFunction\<close>).\<close>

record Parser =
  events :: "string list"
  cmd :: string
  pid :: string
  filesData :: "(string \<times> FileInfo) list"
  summary :: "(string \<times> jsnum) list"
  isCallgrind :: bool
  currentObjectFile :: "string option"
  positions :: string
  pendingCallFile :: "string option"
  pendingCallFunction :: "string option"
  currentFile :: "string option"
  currentFunction :: "string option"

definition initialParser :: Parser where
  "initialParser =
     \<lparr> events = [], cmd = [], pid = [], filesData = [], summary = [], isCallgrind = False,
       currentObjectFile = None, positions = ''line'', pendingCallFile = None,
       pendingCallFunction = None, currentFile = None, currentFunction = None \<rparr>"

section \<open>The streaming parser (lib/cachegrind-parser.ts)\<close>

text \<open>Reading and writing \<open>this.filesData[file].functions[name]\<close>. A current file
  always has its entry in \<open>filesData\<close> (only \<open>fl=\<close> sets it, and creates the entry), so
  a write finds the file; the record of the current function may be missing.\<close>

definition lookupFunction :: "Parser \<Rightarrow> string \<Rightarrow> string \<Rightarrow> FunctionData option" where
  "lookupFunction st cf fn =
     (case map_of (filesData st) cf of
        None \<Rightarrow> None
      | Some fi \<Rightarrow> map_of (fi_functions fi) fn)"

definition storeFunction :: "Parser \<Rightarrow> string \<Rightarrow> string \<Rightarrow> FunctionData \<Rightarrow> Parser" where
  "storeFunction st cf fn fd =
     (case map_of (filesData st) cf of
        None \<Rightarrow> st
      | Some fi \<Rightarrow>
          st\<lparr>filesData :=
               AList.update cf (fi\<lparr>fi_functions := AList.update fn fd (fi_functions fi)\<rparr>) (filesData st)\<rparr>)"

text \<open>\<open>fl=PATH\<close>: the current file; a new file gets an entry stamped with the
  current object file, a known one is restamped when an object file is current.\<close>

definition flLine :: "Parser \<Rightarrow> string \<Rightarrow> Parser" where
  "flLine st t =
     (let cf = drop 3 t;
          ob = (if truthy (currentObjectFile st) then currentObjectFile st else None)
      in case map_of (filesData st) cf of
           None \<Rightarrow>
             st\<lparr>currentFile := Some cf,
                filesData := AList.update cf \<lparr>fi_functions = [], objectFile = ob\<rparr> (filesData st)\<rparr>
         | Some fi \<Rightarrow>
             (if truthy (currentObjectFile st)
              then st\<lparr>currentFile := Some cf,
                     filesData := AList.update cf (fi\<lparr>objectFile := currentObjectFile st\<rparr>) (filesData st)\<rparr>
              else st\<lparr>currentFile := Some cf\<rparr>))"

text \<open>\<open>fn=NAME\<close>: the current function; under a current file its record is
  (re)initialised, with one zero total per event of the vocabulary.\<close>

definition freshFunction :: "Parser \<Rightarrow> FunctionData" where
  "freshFunction st =
     \<lparr> fd_lines = [],
       totals = foldl (\<lambda>acc e. AList.update e (Num 0) acc) [] (events st),
       coveredLines = [], uncoveredLines = [],
       pcData = (if isCallgrind st then Some [] else None),
       fd_calls = None \<rparr>"

definition fnLine :: "Parser \<Rightarrow> string \<Rightarrow> Parser" where
  "fnLine st t =
     (let fn = drop 3 t; st1 = st\<lparr>currentFunction := Some fn\<rparr>
      in if truthy (currentFile st) \<and> fn \<noteq> []
         then storeFunction st1 (the (currentFile st)) fn (freshFunction st)
         else st1)"

text \<open>The regular expression \<open>/^(0x[0-9a-fA-F]+)/\<close>: the matched prefix, if any.\<close>

definition pcMatch :: "string \<Rightarrow> string option" where
  "pcMatch s =
     (if startsWith s ''0x'' \<and> takeWhile (isDigitIn 16) (drop 2 s) \<noteq> []
      then Some (''0x'' @ takeWhile (isDigitIn 16) (drop 2 s))
      else None)"

text \<open>\<open>calls=N ...\<close> followed by the line \<open>nxt\<close>, which the branch consumes. The
  function record is read without a check that it exists: reading \<open>calls\<close> of
  \<open>undefined\<close> raises a TypeError, outside any \<open>try\<close>.\<close>

definition callsLine :: "Parser \<Rightarrow> string \<Rightarrow> string \<Rightarrow> error + Parser" where
  "callsLine st t nxt =
     (let parts = splitWs (drop 6 t);
          callCount = (case parseInt (case parts of [] \<Rightarrow> [] | p # ps \<Rightarrow> p) of
                         NaN \<Rightarrow> 1
                       | Num n \<Rightarrow> if n = 0 then 1 else n)
      in case pcMatch (trim nxt) of
           None \<Rightarrow> Inr st
         | Some spc \<Rightarrow>
             (if truthy (currentFunction st) \<and> truthy (currentFile st)
              then (case lookupFunction st (the (currentFile st)) (the (currentFunction st)) of
                      None \<Rightarrow> Inl TypeError
                    | Some fd \<Rightarrow>
                        Inr ((storeFunction st (the (currentFile st)) (the (currentFunction st))
                               (fd\<lparr>fd_calls :=
                                    Some ((case fd_calls fd of None \<Rightarrow> [] | Some cs \<Rightarrow> cs) @
                                      [\<lparr>targetFile = pendingCallFile st,
                                        targetFunction = pendingCallFunction st,
                                        ci_count = callCount, sourcePc = spc\<rparr>])\<rparr>))
                             \<lparr>pendingCallFile := None, pendingCallFunction := None\<rparr>))
              else Inr st))"

text \<open>\<open>summary: V1 V2 ...\<close>: one total per event, a missing or empty value read as 0.\<close>

definition summaryLine :: "Parser \<Rightarrow> string \<Rightarrow> Parser" where
  "summaryLine st t =
     (let vs = splitWs (trim (secondPart (splitChar CHR '':'' t)))
      in st\<lparr>summary :=
              foldl (\<lambda>acc (e, idx).
                       AList.update e
                         (parseInt (if idx < length vs \<and> vs ! idx \<noteq> [] then vs ! idx else ''0'')) acc)
                [] (zip (events st) [0 ..< length (events st)])\<rparr>)"

text \<open>The event vector of a row in instruction mode: callgrind leaves trailing zeros
  out, so the counts that are missing are 0.\<close>

definition eventCounts :: "string list \<Rightarrow> string list \<Rightarrow> jsnum list" where
  "eventCounts evs cs =
     (let providedEventCounts = map parseInt cs
      in map (\<lambda>idx. if idx < length providedEventCounts then providedEventCounts ! idx else Num 0)
           [0 ..< length evs])"

text \<open>A data row in instruction mode, \<open>PC LINE [counts...]\<close>, for the function record
  \<open>fd\<close>: the line record accumulates, the PC record is assigned, the totals are
  incremented.\<close>

definition instrRow :: "string list \<Rightarrow> string \<Rightarrow> string \<Rightarrow> string list \<Rightarrow> FunctionData \<Rightarrow> FunctionData" where
  "instrRow evs pc ln cs fd =
     (let lineNum = parseInt ln;
          executed = list_ex isPositive (eventCounts evs cs);
          pcLineData = \<lparr>pl_pc = pc, pl_line = lineNum,
                         pl_events = assignAll evs (eventCounts evs cs) [], pl_executed = executed\<rparr>;
          existingLineData = (case map_of (fd_lines fd) lineNum of
                                None \<Rightarrow> \<lparr>ld_counts = [], ld_executed = False\<rparr>
                              | Some ld \<Rightarrow> ld);
          aggregated = \<lparr>ld_counts =
                           foldl (\<lambda>acc (e, c). AList.update e (jsAdd (orZero (map_of acc e)) c) acc)
                             (ld_counts existingLineData) (zip evs (eventCounts evs cs)),
                         ld_executed = (ld_executed existingLineData \<or> executed)\<rparr>
      in fd\<lparr>fd_lines := AList.update lineNum aggregated (fd_lines fd),
            pcData := (case pcData fd of
                         None \<Rightarrow> None
                       | Some pd \<Rightarrow> Some (AList.update pc pcLineData pd)),
            totals := foldl (\<lambda>acc (e, c). plusAssign e c acc) (totals fd)
                        (zip evs (eventCounts evs cs))\<rparr>)"

text \<open>A data row in line mode, \<open>LINE counts...\<close>: the line record is assigned, the
  totals are incremented.\<close>

definition lineRow :: "string list \<Rightarrow> string \<Rightarrow> string list \<Rightarrow> FunctionData \<Rightarrow> FunctionData" where
  "lineRow evs ln cs fd =
     (let lineNum = parseInt ln;
          eventCounts = map parseInt (take (length evs) cs);
          lineData = \<lparr>ld_counts = assignAll evs eventCounts [],
                       ld_executed = list_ex isPositive eventCounts\<rparr>
      in fd\<lparr>fd_lines := AList.update lineNum lineData (fd_lines fd),
            totals := foldl (\<lambda>acc (e, c). plusAssign e c acc) (totals fd) (zip evs eventCounts)\<rparr>)"

text \<open>The data-row branch. Both row kinds sit in a \<open>try\<close> whose \<open>catch\<close> continues with
  the next line: when the current function has no record, the first access raises before
  anything is written, and the row is skipped.\<close>

definition dataRow :: "Parser \<Rightarrow> string \<Rightarrow> Parser" where
  "dataRow st t =
     (if truthy (currentFile st) \<and> truthy (currentFunction st)
      then (let cf = the (currentFile st); fn = the (currentFunction st); parts = splitWs t
            in if isCallgrind st \<and> includesStr (positions st) ''instr''
               then (case parts of
                       pc # ln # c # cs \<Rightarrow>
                         (if startsWith pc ''0x''
                          then (case lookupFunction st cf fn of
                                  None \<Rightarrow> st
                                | Some fd \<Rightarrow> storeFunction st cf fn (instrRow (events st) pc ln (c # cs) fd))
                          else st)
                     | _ \<Rightarrow> st)
               else (case parts of
                       ln # cs \<Rightarrow>
                         (if length (events st) + 1 \<le> length parts
                          then (case lookupFunction st cf fn of
                                  None \<Rightarrow> st
                                | Some fd \<Rightarrow> storeFunction st cf fn (lineRow (events st) ln cs fd))
                          else st)
                     | [] \<Rightarrow> st))
      else st)"

text \<open>One iteration of the loop of \<open>parse\<close> on the trimmed line \<open>t\<close>, where
  \<open>nxt\<close> is the line after it, if there is one: the new state, and whether that next
  line was consumed (the \<open>i++\<close> of the \<open>calls=\<close>, \<open>jcnd=\<close> and \<open>jump=\<close> branches).\<close>

definition step :: "Parser \<Rightarrow> string \<Rightarrow> string option \<Rightarrow> error + (Parser \<times> bool)" where
  "step st t nxt =
     (if t = [] \<or> (startsWith t ''#'' \<and> \<not> isCallgrind st) then Inr (st, False)
      else if startsWith t ''events:''
        then Inr (st\<lparr>events := splitWs (trim (secondPart (splitChar CHR '':'' t)))\<rparr>, False)
      else if startsWith t ''cmd:''
        then Inr (st\<lparr>cmd := trim (secondPart (splitChar CHR '':'' t))\<rparr>, False)
      else if startsWith t ''pid:''
        then Inr (st\<lparr>pid := trim (secondPart (splitChar CHR '':'' t))\<rparr>, False)
      else if startsWith t ''positions:''
        then Inr (st\<lparr>positions := trim (secondPart (splitChar CHR '':'' t))\<rparr>, False)
      else if startsWith t ''part:'' then Inr (st, False)
      else if startsWith t ''ob='' then Inr (st\<lparr>currentObjectFile := Some (drop 3 t)\<rparr>, False)
      else if startsWith t ''cob='' then Inr (st, False)
      else if startsWith t ''fl='' then Inr (flLine st t, False)
      else if startsWith t ''fi='' \<or> startsWith t ''fe='' then Inr (st, False)
      else if startsWith t ''fn='' then Inr (fnLine st t, False)
      else if startsWith t ''cfi='' then Inr (st\<lparr>pendingCallFile := Some (drop 4 t)\<rparr>, False)
      else if startsWith t ''cfn='' then Inr (st\<lparr>pendingCallFunction := Some (drop 4 t)\<rparr>, False)
      else if startsWith t ''calls=''
        then (case nxt of
                None \<Rightarrow> Inr (st, False)
              | Some nextLine \<Rightarrow>
                  (case callsLine st t nextLine of
                     Inl e \<Rightarrow> Inl e
                   | Inr st' \<Rightarrow> Inr (st', True)))
      else if startsWith t ''jcnd='' \<or> startsWith t ''jump=''
        then (case nxt of
                None \<Rightarrow> Inr (st, False)
              | Some nextLine \<Rightarrow>
                  Inr (st, startsWith (trim nextLine) ''0x''
                           \<and> list_ex (isDigitIn 16) (take 1 (drop 2 (trim nextLine)))))
      else if startsWith t ''jfi='' then Inr (st, False)
      else if startsWith t ''summary:'' then Inr (summaryLine st t, False)
      else Inr (dataRow st t, False))"

text \<open>The loop \<open>for (let i = 0; i < lines.length; i++)\<close>, on the lines from \<open>i\<close> on.\<close>

function run :: "Parser \<Rightarrow> string list \<Rightarrow> error + Parser" where
  "run st [] = Inr st"
| "run st (l # rest) =
     (case step st (trim l) (case rest of [] \<Rightarrow> None | nextLine # _ \<Rightarrow> Some nextLine) of
        Inl e \<Rightarrow> Inl e
      | Inr (st', consumed) \<Rightarrow> run st' (if consumed then drop 1 rest else rest))"
  by pat_completeness auto
termination
  by (relation "measure (\<lambda>(st, ls). length ls)") auto

subsection \<open>Post-processing and the result of \<open>parse\<close>\<close>

text \<open>
  The result keeps the fields the engine's queries read. Left out: the resolved source
  text and the line count taken from it, the coverage percentages (floating point) and
  the two sorted arrays of line numbers of a file (their sizes are kept).
\<close>

record FileCoverage =
  sourceFilePath :: string
  compiledLines :: nat
  fc_coveredLines :: nat
  fc_functions :: "(string \<times> FunctionData) list"
  cachegrindEvents :: "string list"
  fc_objectFile :: "string option"

record CachegrindData =
  projectName :: string
  analysisType :: string
  cd_pid :: string
  cd_events :: "string list"
  totalLines :: nat
  cd_coveredLines :: nat
  filesAnalyzed :: nat
  fileCoverage :: "(string \<times> FileCoverage) list"
  summaryTotals :: "(string \<times> jsnum) list"
  cd_isCallgrind :: bool

text \<open>\<open>Object.entries\<close> of a record keyed by numbers: the keys that are array indices
  come first, in ascending order, then the others in insertion order.\<close>

definition isArrayIndex :: "jsnum \<Rightarrow> bool" where
  "isArrayIndex k = (case k of NaN \<Rightarrow> False | Num n \<Rightarrow> 0 \<le> n \<and> n < 4294967295)"

definition numericEntries :: "(jsnum \<times> 'a) list \<Rightarrow> (jsnum \<times> 'a) list" where
  "numericEntries al =
     sort_key (\<lambda>(k, v). case k of NaN \<Rightarrow> 0 | Num n \<Rightarrow> n) (filter (\<lambda>(k, v). isArrayIndex k) al)
     @ filter (\<lambda>(k, v). \<not> isArrayIndex k) al"

definition coverFunction :: "FunctionData \<Rightarrow> FunctionData" where
  "coverFunction fd =
     fd\<lparr>coveredLines :=
          coveredLines fd @ map fst (filter (\<lambda>(k, ld). ld_executed ld) (numericEntries (fd_lines fd))),
        uncoveredLines :=
          uncoveredLines fd @ map fst (filter (\<lambda>(k, ld). \<not> ld_executed ld) (numericEntries (fd_lines fd)))\<rparr>"

definition coverFile :: "string list \<Rightarrow> string \<times> FileInfo \<Rightarrow> string \<times> FileCoverage" where
  "coverFile evs pf =
     (let fns = map (\<lambda>(name, fd). (name, coverFunction fd)) (fi_functions (snd pf));
          entries = concat (map (\<lambda>(name, fd). numericEntries (fd_lines fd)) (fi_functions (snd pf)));
          coveredLineNumbers = remdups (map fst (filter (\<lambda>(k, ld). ld_executed ld) entries));
          uncoveredLineNumbers = remdups (map fst (filter (\<lambda>(k, ld). \<not> ld_executed ld) entries))
      in (fst pf,
          \<lparr> sourceFilePath = fst pf,
            compiledLines = length coveredLineNumbers + length uncoveredLineNumbers,
            fc_coveredLines = length coveredLineNumbers,
            fc_functions = fns,
            cachegrindEvents = evs,
            fc_objectFile = objectFile (snd pf) \<rparr>))"

definition postProcess :: "Parser \<Rightarrow> CachegrindData" where
  "postProcess st =
     (let fc = map (coverFile (events st)) (filesData st)
      in \<lparr> projectName = (if cmd st = [] then ''Unknown'' else cmd st),
           analysisType = (if isCallgrind st then ''callgrind'' else ''cachegrind''),
           cd_pid = pid st,
           cd_events = events st,
           totalLines = sum_list (map (\<lambda>(p, f). compiledLines f) fc),
           cd_coveredLines = sum_list (map (\<lambda>(p, f). fc_coveredLines f) fc),
           filesAnalyzed = length fc,
           fileCoverage = fc,
           summaryTotals = summary st,
           cd_isCallgrind = isCallgrind st \<rparr>)"

text \<open>\<open>new CachegrindParser(content).parse()\<close>: the first line alone decides whether
  the profile is callgrind.\<close>

definition parse :: "string \<Rightarrow> error + CachegrindData" where
  "parse content =
     (let ls = splitChar CHR 0x0A content;
          st0 = initialParser\<lparr>isCallgrind :=
                  (case ls of [] \<Rightarrow> False | l0 # _ \<Rightarrow> trim l0 = ''# callgrind format'')\<rparr>
      in case run st0 ls of
           Inl e \<Rightarrow> Inl e
         | Inr st \<Rightarrow> Inr (postProcess st))"

text \<open>The function record of \<open>file:name\<close> in a parsed profile.\<close>

definition functionOf :: "CachegrindData \<Rightarrow> string \<Rightarrow> string \<Rightarrow> FunctionData option" where
  "functionOf d file name =
     (case map_of (fileCoverage d) file of
        None \<Rightarrow> None
      | Some fc \<Rightarrow> map_of (fc_functions fc) name)"

text \<open>A line reaches the data-row branch when it is not blank, not a skipped comment and
  starts with none of the prefixes the loop tests before it.\<close>

definition directivePrefixes :: "string list" where
  "directivePrefixes =
     [''events:'', ''cmd:'', ''pid:'', ''positions:'', ''part:'', ''ob='', ''cob='', ''fl='',
      ''fi='', ''fe='', ''fn='', ''cfi='', ''cfn='', ''calls='', ''jcnd='', ''jump='', ''jfi='',
      ''summary:'']"

definition isDataRow :: "Parser \<Rightarrow> string \<Rightarrow> bool" where
  "isDataRow st t \<longleftrightarrow>
     t \<noteq> [] \<and> \<not> (startsWith t ''#'' \<and> \<not> isCallgrind st) \<and> \<not> list_ex (startsWith t) directivePrefixes"

text \<open>The count of the event \<open>e\<close> in a line record (0 when the record has none), and
  the sum of these counts over the line records of a function: the right-hand side of
  \<open>f.totals[e] = \<Sigma>_line f.lines[line][e]\<close>.\<close>

definition countOf :: "string \<Rightarrow> jsnum \<times> LineData \<Rightarrow> jsnum" where
  "countOf e p = (case map_of (ld_counts (snd p)) e of None \<Rightarrow> Num 0 | Some v \<Rightarrow> v)"

definition lineSum :: "FunctionData \<Rightarrow> string \<Rightarrow> jsnum" where
  "lineSum fd e = foldl jsAdd (Num 0) (map (countOf e) (fd_lines fd))"

section \<open>The call tree (components/call-tree-viewer.tsx)\<close>

text \<open>
  A \<open>CallTreeNode\<close> of types/profiler.ts. Node identifiers are the strings
  \<open>node-N\<close> and \<open>stub-N\<close>, numbered by one counter, which the model threads through
  the construction.
\<close>

datatype CallTreeNode =
  CallTreeNode (nodeId: string) (functionName: string) (fileName: string)
    (pcStart: string) (pcEnd: string) (callCount: int) (totalTime: jsnum) (selfTime: jsnum)
    (children: "CallTreeNode list") (nodeCalls: "CallInfo list option")

function showNat :: "nat \<Rightarrow> string" where
  "showNat n =
     (if n < 10 then [char_of (48 + n)] else showNat (n div 10) @ [char_of (48 + n mod 10)])"
  by pat_completeness auto
termination
  by (relation "measure id") auto

declare showNat.simps [simp del]






definition callCountOr1 :: "CallInfo \<Rightarrow> int" where
  "callCountOr1 call = (if ci_count call = 0 then 1 else ci_count call)"

definition stubNode :: "nat \<Rightarrow> string \<Rightarrow> string \<Rightarrow> CallInfo \<Rightarrow> CallTreeNode" where
  "stubNode nid targetFile' name call =
     CallTreeNode (''stub-'' @ showNat nid) name targetFile' [] [] (callCountOr1 call)
       (Num 0) (Num 0) [] None"

definition withCallCount :: "int \<Rightarrow> CallTreeNode \<Rightarrow> CallTreeNode" where
  "withCallCount c n =
     CallTreeNode (nodeId n) (functionName n) (fileName n) (pcStart n) (pcEnd n) c
       (totalTime n) (selfTime n) (children n) (nodeCalls n)"





fun height :: "CallTreeNode \<Rightarrow> nat" where
  "height (CallTreeNode i f fl ps pe c t s kids cs) = Suc (fold max (map height kids) 0)"


section \<open>The search index (lib/call-tree-search.ts)\<close>

text \<open>
  A \<open>Set<CallTreeNode>\<close> is a list without repetition, in insertion order. JavaScript
  compares the members by identity; the model compares the node values, which is the
  same for nodes with distinct identifiers, as the tree builder numbers them.
\<close>

definition setAdd :: "'a \<Rightarrow> 'a list \<Rightarrow> 'a list" where
  "setAdd x xs = (if x \<in> set xs then xs else xs @ [x])"

definition setAddAll :: "'a list \<Rightarrow> 'a list \<Rightarrow> 'a list" where
  "setAddAll ys xs = foldl (\<lambda>acc y. setAdd y acc) xs ys"

definition toLowerChar :: "char \<Rightarrow> char" where
  "toLowerChar c =
     (let n = (of_char c :: nat) in if 65 \<le> n \<and> n \<le> 90 then char_of (n + 32) else c)"

definition toLowerCase :: "string \<Rightarrow> string" where
  "toLowerCase s = map toLowerChar s"

definition isLowerAlpha :: "char \<Rightarrow> bool" where
  "isLowerAlpha c = (let n = (of_char c :: nat) in 97 \<le> n \<and> n \<le> 122)"

definition isUpperAlpha :: "char \<Rightarrow> bool" where
  "isUpperAlpha c = (let n = (of_char c :: nat) in 65 \<le> n \<and> n \<le> 90)"

definition isDecimalDigit :: "char \<Rightarrow> bool" where
  "isDecimalDigit c = (let n = (of_char c :: nat) in 48 \<le> n \<and> n \<le> 57)"

record SearchIndex =
  termToNodes :: "(string \<times> CallTreeNode list) list"
  nodeToTerms :: "(CallTreeNode \<times> string list) list"

definition emptySearchIndex :: SearchIndex where
  "emptySearchIndex = \<lparr>termToNodes = [], nodeToTerms = []\<rparr>"

definition addToIndex :: "string \<Rightarrow> CallTreeNode \<Rightarrow> SearchIndex \<Rightarrow> SearchIndex" where
  "addToIndex term node idx =
     \<lparr>termToNodes =
        AList.update term
          (setAdd node (case map_of (termToNodes idx) term of None \<Rightarrow> [] | Some ns \<Rightarrow> ns))
          (termToNodes idx),
      nodeToTerms =
        AList.update node
          (setAdd term (case map_of (nodeToTerms idx) node of None \<Rightarrow> [] | Some ts \<Rightarrow> ts))
          (nodeToTerms idx)\<rparr>"

text \<open>\<open>.replace(/([a-z])([A-Z])/g, '$1 $2')\<close>: a space between a lower-case letter and
  the upper-case letter that follows it.\<close>

fun camelSpaces :: "string \<Rightarrow> string" where
  "camelSpaces (a # b # r) =
     (if isLowerAlpha a \<and> isUpperAlpha b then a # CHR '' '' # camelSpaces (b # r)
      else a # camelSpaces (b # r))"
| "camelSpaces s = s"

definition nameWords :: "string \<Rightarrow> string list" where
  "nameWords name =
     filter (\<lambda>w. 1 < length w)
       (splitRuns (\<lambda>c. \<not> (isLowerAlpha c \<or> isUpperAlpha c \<or> isDecimalDigit c))
          (map (\<lambda>c. if c = CHR ''_'' then CHR '' '' else c) (camelSpaces name)))"

text \<open>The terms under which \<open>indexNode\<close> files a node, in the order of its calls of
  \<open>addToIndex\<close>: the lower-case name, the words, the prefixes of length 1 to 12, the
  suffixes of length 3 to 8 of a name longer than 3, and for a name of at most 8
  characters its inner substrings of length 2 to 4.\<close>

definition nodeTerms :: "string \<Rightarrow> string list" where
  "nodeTerms name =
     (let functionNameLower = toLowerCase name;
          nameLength = length functionNameLower
      in [functionNameLower]
         @ map toLowerCase (nameWords name)
         @ map (\<lambda>len. take len functionNameLower) [1 ..< Suc (min nameLength 12)]
         @ (if 3 < nameLength
            then map (\<lambda>len. drop (nameLength - len) functionNameLower) [3 ..< Suc (min nameLength 8)]
            else [])
         @ (if nameLength \<le> 8
            then concat (map (\<lambda>start. map (\<lambda>len. take len (drop start functionNameLower))
                                         [2 ..< Suc (min 4 (nameLength - start))])
                           [1 ..< nameLength - 1])
            else []))"

text \<open>\<open>indexNode(node, depth)\<close> with the set \<open>visited\<close> of node identifiers, and the
  loop over the children.\<close>

fun indexNode :: "CallTreeNode \<Rightarrow> nat \<Rightarrow> string list \<times> SearchIndex \<Rightarrow> string list \<times> SearchIndex"
  and indexNodes :: "CallTreeNode list \<Rightarrow> nat \<Rightarrow> string list \<times> SearchIndex \<Rightarrow> string list \<times> SearchIndex"
where
  "indexNode (CallTreeNode i f fl ps pe c t s kids cs) depth (visited, idx) =
     (if 100 < depth \<or> i \<in> set visited then (visited, idx)
      else indexNodes kids (Suc depth)
             (i # visited,
              foldl (\<lambda>acc term. addToIndex term (CallTreeNode i f fl ps pe c t s kids cs) acc)
                idx (nodeTerms f)))"
| "indexNodes [] depth st = st"
| "indexNodes (k # ks) depth st = indexNodes ks depth (indexNode k depth st)"

definition buildSearchIndex :: "CallTreeNode list \<Rightarrow> SearchIndex" where
  "buildSearchIndex nodes = snd (indexNodes nodes 0 ([], emptySearchIndex))"

definition search :: "SearchIndex \<Rightarrow> string \<Rightarrow> CallTreeNode list" where
  "search idx searchTerm =
     (if searchTerm = [] \<or> trim searchTerm = [] then []
      else (let termLower = trim (toLowerCase searchTerm);
                results = setAddAll (case map_of (termToNodes idx) termLower of
                                       None \<Rightarrow> [] | Some ns \<Rightarrow> ns) [];
                results2 = (if length results < 10
                            then foldl (\<lambda>acc (indexedTerm, ns).
                                          if startsWith indexedTerm termLower
                                          then setAddAll ns acc else acc)
                                   results (termToNodes idx)
                            else results);
                results3 = (if length results2 < 5
                            then foldl (\<lambda>acc (indexedTerm, ns).
                                          if \<not> startsWith indexedTerm termLower
                                             \<and> includesStr indexedTerm termLower
                                          then setAddAll ns acc else acc)
                                   results2 (termToNodes idx)
                            else results2)
            in results3))"

text \<open>A node is indexed when \<open>addToIndex\<close> was called for it.\<close>

definition isIndexed :: "SearchIndex \<Rightarrow> CallTreeNode \<Rightarrow> bool" where
  "isIndexed idx n \<longleftrightarrow> map_of (nodeToTerms idx) n \<noteq> None"

text \<open>The set of nodes filed under a term, and the invariant that every indexed node
  is filed under its lower-case name.\<close>

definition lookupT :: "SearchIndex \<Rightarrow> string \<Rightarrow> CallTreeNode list" where
  "lookupT idx k = (case map_of (termToNodes idx) k of None \<Rightarrow> [] | Some ns \<Rightarrow> ns)"

definition filed :: "SearchIndex \<Rightarrow> bool" where
  "filed idx \<longleftrightarrow> (\<forall>n. isIndexed idx n \<longrightarrow> n \<in> set (lookupT idx (toLowerCase (functionName n))))"

section \<open>The entry-point matcher (lib/entry-point-matcher.ts)\<close>

record EntryPointIndex =
  byName :: "(string \<times> CallTreeNode) list"
  byPcStart :: "(string \<times> CallTreeNode) list"
  byPartialName :: "(string \<times> CallTreeNode list) list"
  pcRanges :: "(int \<times> int \<times> CallTreeNode) list"

definition emptyEntryIndex :: EntryPointIndex where
  "emptyEntryIndex = \<lparr>byName = [], byPcStart = [], byPartialName = [], pcRanges = []\<rparr>"

definition addPartial :: "string \<Rightarrow> CallTreeNode \<Rightarrow> (string \<times> CallTreeNode list) list
    \<Rightarrow> (string \<times> CallTreeNode list) list" where
  "addPartial key node m =
     AList.update key (setAdd node (case map_of m key of None \<Rightarrow> [] | Some ns \<Rightarrow> ns)) m"

text \<open>The range a node contributes to \<open>pcRanges\<close>: both ends non-empty, both parsed as
  hexadecimal numbers, and \<open>end >= start\<close>.\<close>

definition pcRangeOf :: "CallTreeNode \<Rightarrow> (int \<times> int) option" where
  "pcRangeOf node =
     (if pcStart node \<noteq> [] \<and> pcEnd node \<noteq> []
      then (case (parseInt16 (pcStart node), parseInt16 (pcEnd node)) of
              (Num start, Num end') \<Rightarrow> if start \<le> end' then Some (start, end') else None
            | _ \<Rightarrow> None)
      else None)"

text \<open>The body of the loop of \<open>buildIndex\<close> for one node of the node map.\<close>

definition indexEntryNode :: "CallTreeNode \<Rightarrow> EntryPointIndex \<Rightarrow> EntryPointIndex" where
  "indexEntryNode node idx =
     (let nameLower = toLowerCase (functionName node);
          byName1 = AList.update nameLower node (byName idx);
          nameWithoutPrefix = toLowerCase (dropWhile (\<lambda>c. c = CHR ''_'') (functionName node));
          byName2 = (if nameWithoutPrefix \<noteq> nameLower
                     then AList.update nameWithoutPrefix node byName1 else byName1);
          partial1 = foldl (\<lambda>acc len. addPartial (take len nameLower) node acc)
                       (byPartialName idx) [3 ..< Suc (min (length nameLower) 8)];
          words = splitRuns (\<lambda>c. \<not> (isLowerAlpha c \<or> isDecimalDigit c)) nameLower;
          partial2 = foldl (\<lambda>acc word.
                              if 3 \<le> length word
                              then foldl (\<lambda>acc2 len. addPartial (take len word) node acc2)
                                     (addPartial word node acc) [3 ..< Suc (min (length word) 6)]
                              else acc)
                       partial1 words
      in \<lparr>byName = byName2,
          byPcStart = (if pcStart node \<noteq> []
                       then AList.update (toLowerCase (pcStart node)) node (byPcStart idx)
                       else byPcStart idx),
          byPartialName = partial2,
          pcRanges = (case pcRangeOf node of
                        None \<Rightarrow> pcRanges idx
                      | Some (start, end') \<Rightarrow> pcRanges idx @ [(start, end', node)])\<rparr>)"

text \<open>\<open>buildIndex(nodeMap)\<close> on the values of the node map, in its order; the ranges
  are sorted by their start (\<open>Array.prototype.sort\<close> is stable, as \<open>sort_key\<close> is).\<close>

definition buildEntryIndex :: "CallTreeNode list \<Rightarrow> EntryPointIndex" where
  "buildEntryIndex nodes =
     (let idx = foldl (\<lambda>acc node. indexEntryNode node acc) emptyEntryIndex nodes
      in idx\<lparr>pcRanges := sort_key fst (pcRanges idx)\<rparr>)"

text \<open>The loop of \<open>findByPcRange\<close>. Reading \<open>ranges[mid]\<close> outside the array would
  give \<open>undefined\<close>, and reading its \<open>start\<close> a TypeError.\<close>

function findByPcRangeFrom :: "(int \<times> int \<times> CallTreeNode) list \<Rightarrow> int \<Rightarrow> int \<Rightarrow> int
    \<Rightarrow> error + CallTreeNode option" where
  "findByPcRangeFrom ranges address left right =
     (if left \<le> right
      then (let mid = (left + right) div 2
            in if mid < 0 \<or> int (length ranges) \<le> mid then Inl TypeError
               else (case ranges ! nat mid of
                       (start, end', node) \<Rightarrow>
                         if start \<le> address \<and> address \<le> end' then Inr (Some node)
                         else if address < start
                           then findByPcRangeFrom ranges address left (mid - 1)
                           else findByPcRangeFrom ranges address (mid + 1) right))
      else Inr None)"
  by pat_completeness auto
termination
  by (relation "measure (\<lambda>(ranges, address, left, right). nat (right - left + 1))") auto

declare findByPcRangeFrom.simps [simp del]

definition findByPcRange :: "(int \<times> int \<times> CallTreeNode) list \<Rightarrow> int \<Rightarrow> error + CallTreeNode option" where
  "findByPcRange ranges address = findByPcRangeFrom ranges address 0 (int (length ranges) - 1)"

text \<open>The regular expression \<open>/^(0x)?[0-9a-fA-F]+$/\<close>.\<close>

definition matchesPc :: "string \<Rightarrow> bool" where
  "matchesPc s \<longleftrightarrow>
     (startsWith s ''0x'' \<and> drop 2 s \<noteq> [] \<and> list_all (isDigitIn 16) (drop 2 s))
     \<or> (s \<noteq> [] \<and> list_all (isDigitIn 16) s)"

text \<open>Step 3 of \<open>findEntryNode\<close>: the partial-name map, then the first name that
  starts with the query.\<close>

definition findByPartialName :: "EntryPointIndex \<Rightarrow> string \<Rightarrow> CallTreeNode option" where
  "findByPartialName idx trimmedLower =
     (if 3 \<le> length trimmedLower
      then (case map_of (byPartialName idx) trimmedLower of
              Some (node # ns) \<Rightarrow> Some node
            | _ \<Rightarrow>
                (case find (\<lambda>(name, node). startsWith name trimmedLower) (byName idx) of
                   Some (name, node) \<Rightarrow> Some node
                 | None \<Rightarrow> None))
      else None)"

definition findEntryNode :: "EntryPointIndex \<Rightarrow> string \<Rightarrow> error + CallTreeNode option" where
  "findEntryNode idx entryPoint =
     (if entryPoint = [] then Inr None
      else (let trimmed = trim entryPoint; trimmedLower = toLowerCase trimmed
            in case map_of (byName idx) trimmedLower of
                 Some node \<Rightarrow> Inr (Some node)
               | None \<Rightarrow>
                   (if matchesPc trimmed
                    then (let pcAddress = (if startsWith trimmed ''0x'' then trimmed else ''0x'' @ trimmed)
                          in case map_of (byPcStart idx) (toLowerCase pcAddress) of
                               Some node \<Rightarrow> Inr (Some node)
                             | None \<Rightarrow>
                                 (case parseInt16 pcAddress of
                                    Num addr \<Rightarrow> findByPcRange (pcRanges idx) addr
                                  | NaN \<Rightarrow> Inr (findByPartialName idx trimmedLower)))
                    else Inr (findByPartialName idx trimmedLower))))"

text \<open>The address a PC query denotes, membership of an address in the range of a node,
  and pairwise disjointness of the ranges of a list of nodes.\<close>

definition queryAddress :: "string \<Rightarrow> jsnum" where
  "queryAddress q =
     parseInt16 (if startsWith (trim q) ''0x'' then trim q else ''0x'' @ trim q)"

definition inPcRange :: "jsnum \<Rightarrow> CallTreeNode \<Rightarrow> bool" where
  "inPcRange a node =
     (case (a, pcRangeOf node) of
        (Num addr, Some (start, end')) \<Rightarrow> start \<le> addr \<and> addr \<le> end'
      | _ \<Rightarrow> False)"







section \<open>Properties of the parser\<close>

subsection \<open>Rows outside a function\<close>

lemma step_data_row: "isDataRow st t \<Longrightarrow> step st t nxt = Inr (dataRow st t, False)"
  unfolding isDataRow_def directivePrefixes_def step_def by auto

lemma dataRow_no_scope:
  "\<not> (truthy (currentFile st) \<and> truthy (currentFunction st)) \<Longrightarrow> dataRow st t = st"
  unfolding dataRow_def by auto

text \<open>
  C10. A data row met before both a current file (\<open>fl=\<close>) and a current function
  (\<open>fn=\<close>) are established is discarded: the iteration returns the parser state as it
  was (no line or PC record, no total, no pending call changes), raises nothing and
  consumes no further line, so the parse goes on as if the row were absent.
\<close>

theorem data_row_outside_function_discarded:
  assumes "isDataRow st (trim l)"
    and "\<not> (truthy (currentFile st) \<and> truthy (currentFunction st))"
  shows "step st (trim l) nxt = Inr (st, False) \<and> run st (l # rest) = run st rest"
  using assms by (simp add: step_data_row dataRow_no_scope)

theorem data_row_outside_function_discarded_witness:
  "isDataRow initialParser (trim ''5 100'')
   \<and> \<not> (truthy (currentFile initialParser) \<and> truthy (currentFunction initialParser))
   \<and> step initialParser (trim ''5 100'') (Some ''fn=f'') = Inr (initialParser, False)
   \<and> run initialParser [''5 100'', ''fn=f''] = run initialParser [''fn=f'']"
proof -
  have h1: "isDataRow initialParser (trim ''5 100'')" by code_simp
  have h2: "\<not> (truthy (currentFile initialParser) \<and> truthy (currentFunction initialParser))"
    by code_simp
  from data_row_outside_function_discarded [OF h1 h2, of "Some ''fn=f''" "[''fn=f'']"] h1 h2
  show ?thesis by blast
qed

subsection \<open>Parsing without a vocabulary\<close>

lemma events_storeFunction [simp]: "events (storeFunction st cf fn fd) = events st"
  by (simp add: storeFunction_def split: option.splits)

lemma events_flLine [simp]: "events (flLine st t) = events st"
  by (simp add: flLine_def Let_def split: option.splits)

lemma events_fnLine [simp]: "events (fnLine st t) = events st"
  by (simp add: fnLine_def Let_def)

lemma events_summaryLine [simp]: "events (summaryLine st t) = events st"
  by (simp add: summaryLine_def Let_def)

lemma events_dataRow [simp]: "events (dataRow st t) = events st"
  by (simp add: dataRow_def Let_def split: option.splits list.splits)











subsection \<open>Malformed input\<close>

text \<open>
  C2. Parsing is claimed never to raise. The \<open>calls=\<close> branch reads the record of the
  current function without checking that it exists, outside any \<open>try\<close>: when
  \<open>fn=\<close> came before the first \<open>fl=\<close>, the record was never created and
  \<open>parse\<close> raises a TypeError.
\<close>

theorem calls_without_function_record_raises:
  "parse ''fn=f\<newline>fl=a.c\<newline>calls=1 0\<newline>0x10'' = Inl TypeError"
  by code_simp

subsection \<open>Totals and line records\<close>

lemma jsAdd_assoc: "jsAdd (jsAdd a b) c = jsAdd a (jsAdd b c)"
  by (cases a; cases b; cases c) (simp_all add: jsAdd_def)

lemma jsAdd_commute: "jsAdd a b = jsAdd b a"
  by (cases a; cases b) (simp_all add: jsAdd_def)

lemma jsAdd_zero [simp]: "jsAdd (Num 0) a = a" "jsAdd a (Num 0) = a"
  by (cases a; simp add: jsAdd_def)+

lemma foldl_jsAdd_shift: "foldl jsAdd (jsAdd x c) zs = jsAdd (foldl jsAdd x zs) c"
proof (induction zs arbitrary: x)
  case Nil
  then show ?case by simp
next
  case (Cons z zs)
  have "jsAdd (jsAdd x c) z = jsAdd (jsAdd x z) c"
    by (metis jsAdd_assoc jsAdd_commute)
  then show ?case using Cons [of "jsAdd x z"] by simp
qed

lemma lineSum_alt: "lineSum fd e = foldl jsAdd (Num 0) (map (countOf e) (fd_lines fd))"
  by (simp add: lineSum_def)

lemma sum_update_some:
  "map_of al k = Some ld \<Longrightarrow> countOf e (k, ld') = jsAdd (countOf e (k, ld)) c \<Longrightarrow>
   foldl jsAdd a (map (countOf e) (AList.update k ld' al)) = jsAdd (foldl jsAdd a (map (countOf e) al)) c"
proof (induction al arbitrary: a)
  case Nil
  then show ?case by simp
next
  case (Cons p al)
  show ?case
  proof (cases "fst p = k")
    case True
    then have "snd p = ld" using Cons.prems(1) by (cases p) simp
    then have "countOf e p = countOf e (k, ld)" by (simp add: countOf_def)
    then show ?thesis
      using True Cons.prems(2) by (cases p) (simp add: foldl_jsAdd_shift jsAdd_assoc [symmetric])
  next
    case False
    then have "map_of al k = Some ld" using Cons.prems(1) by (cases p) simp
    from Cons.IH [OF this Cons.prems(2)] False show ?thesis by (cases p) simp
  qed
qed

lemma sum_update_none:
  "map_of al k = None \<Longrightarrow>
   foldl jsAdd a (map (countOf e) (AList.update k ld' al))
   = jsAdd (foldl jsAdd a (map (countOf e) al)) (countOf e (k, ld'))"
proof (induction al arbitrary: a)
  case Nil
  then show ?case by simp
next
  case (Cons p al)
  then show ?case by (cases p) (auto split: if_splits)
qed

lemma fold_plusAssign:
  "distinct (map fst ps) \<Longrightarrow>
   map_of (foldl (\<lambda>acc (e, c). plusAssign e c acc) t ps) e
   = (case map_of ps e of
        None \<Rightarrow> map_of t e
      | Some c \<Rightarrow> Some (case map_of t e of None \<Rightarrow> NaN | Some v \<Rightarrow> jsAdd v c))"
proof (induction ps arbitrary: t)
  case Nil
  then show ?case by simp
next
  case (Cons p ps)
  obtain e1 c1 where p: "p = (e1, c1)" by (cases p)
  have d: "distinct (map fst ps)" "e1 \<notin> fst ` set ps" using Cons.prems p by auto
  have n: "map_of ps e1 = None" using d(2) by (simp add: map_of_eq_None_iff)
  show ?case
    using Cons.IH [OF d(1), of "plusAssign e1 c1 t"] n
    by (auto simp: p plusAssign_def update_conv' split: option.splits)
qed

lemma fold_accumulate:
  "distinct (map fst ps) \<Longrightarrow>
   map_of (foldl (\<lambda>acc (e, c). AList.update e (jsAdd (orZero (map_of acc e)) c) acc) l ps) e
   = (case map_of ps e of
        None \<Rightarrow> map_of l e
      | Some c \<Rightarrow> Some (jsAdd (orZero (map_of l e)) c))"
proof (induction ps arbitrary: l)
  case Nil
  then show ?case by simp
next
  case (Cons p ps)
  obtain e1 c1 where p: "p = (e1, c1)" by (cases p)
  have d: "distinct (map fst ps)" "e1 \<notin> fst ` set ps" using Cons.prems p by auto
  have n: "map_of ps e1 = None" using d(2) by (simp add: map_of_eq_None_iff)
  show ?case
    using Cons.IH [OF d(1), of "AList.update e1 (jsAdd (orZero (map_of l e1)) c1) l"] n
    by (auto simp: p update_conv' split: option.splits)
qed

lemma length_eventCounts [simp]: "length (eventCounts evs cs) = length evs"
  by (simp add: eventCounts_def Let_def)

lemma zip_events_lookup:
  assumes "distinct evs" and "e \<in> set evs"
  shows "distinct (map fst (zip evs (eventCounts evs cs)))"
    and "\<exists>c. map_of (zip evs (eventCounts evs cs)) e = Some c"
proof -
  show "distinct (map fst (zip evs (eventCounts evs cs)))" using assms(1) by simp
  have "map fst (zip evs (eventCounts evs cs)) = evs" by simp
  then have "fst ` set (zip evs (eventCounts evs cs)) = set evs" by (metis set_map)
  then have "e \<in> fst ` set (zip evs (eventCounts evs cs))" using assms(2) by simp
  then show "\<exists>c. map_of (zip evs (eventCounts evs cs)) e = Some c"
    by (metis map_of_eq_None_iff not_None_eq)
qed

text \<open>A row in instruction mode keeps \<open>totals[e]\<close> equal to the sum over the line
  records (the events being distinct, and the record of the line holding no \<open>NaN\<close>);
  a row in line mode does so when its line is new.\<close>

lemma instrRow_keeps_totals:
  assumes ev: "distinct evs" "e \<in> set evs"
    and num: "case map_of (fd_lines fd) (parseInt ln) of
                None \<Rightarrow> True
              | Some ld \<Rightarrow> map_of (ld_counts ld) e \<noteq> Some NaN"
    and eq: "map_of (totals fd) e = Some (lineSum fd e)"
  shows "map_of (totals (instrRow evs pc ln cs fd)) e = Some (lineSum (instrRow evs pc ln cs fd) e)"
proof -
  let ?ps = "zip evs (eventCounts evs cs)"
  from zip_events_lookup [OF ev, of cs] obtain c where
    d: "distinct (map fst ?ps)" and c: "map_of ?ps e = Some c" by blast
  let ?old = "case map_of (fd_lines fd) (parseInt ln) of
                None \<Rightarrow> \<lparr>ld_counts = [], ld_executed = False\<rparr> | Some ld \<Rightarrow> ld"
  let ?new = "\<lparr>ld_counts = foldl (\<lambda>acc (e, c). AList.update e (jsAdd (orZero (map_of acc e)) c) acc)
                              (ld_counts ?old) ?ps,
               ld_executed = (ld_executed ?old \<or> list_ex isPositive (eventCounts evs cs))\<rparr>"
  have t: "map_of (totals (instrRow evs pc ln cs fd)) e = Some (jsAdd (lineSum fd e) c)"
    using fold_plusAssign [OF d, of "totals fd" e] c eq by (simp add: instrRow_def Let_def)
  have l: "fd_lines (instrRow evs pc ln cs fd) = AList.update (parseInt ln) ?new (fd_lines fd)"
    by (simp add: instrRow_def Let_def)
  have nc: "countOf e (parseInt ln, ?new) = jsAdd (orZero (map_of (ld_counts ?old) e)) c"
    using fold_accumulate [OF d, of "ld_counts ?old" e] c by (simp add: countOf_def)
  have "lineSum (instrRow evs pc ln cs fd) e = jsAdd (lineSum fd e) c"
  proof (cases "map_of (fd_lines fd) (parseInt ln)")
    case None
    then have "countOf e (parseInt ln, ?new) = c" using nc by (simp add: orZero_def)
    then show ?thesis
      using sum_update_none [OF None, of "Num 0" e ?new] by (simp add: lineSum_alt l)
  next
    case (Some ld)
    have "orZero (map_of (ld_counts ld) e) = countOf e (parseInt ln, ld)"
      using num Some by (auto simp: orZero_def countOf_def split: option.splits jsnum.splits)
    then have "countOf e (parseInt ln, ?new) = jsAdd (countOf e (parseInt ln, ld)) c"
      using nc Some by simp
    from sum_update_some [OF Some this, of "Num 0"] show ?thesis by (simp add: lineSum_alt l)
  qed
  then show ?thesis using t by simp
qed


lemma fold_assign:
  "distinct (map fst ps) \<Longrightarrow>
   map_of (foldl (\<lambda>acc (e, c). AList.update e c acc) l ps) e
   = (case map_of ps e of None \<Rightarrow> map_of l e | Some c \<Rightarrow> Some c)"
proof (induction ps arbitrary: l)
  case Nil
  then show ?case by simp
next
  case (Cons p ps)
  obtain e1 c1 where p: "p = (e1, c1)" by (cases p)
  have d: "distinct (map fst ps)" "e1 \<notin> fst ` set ps" using Cons.prems p by auto
  have n: "map_of ps e1 = None" using d(2) by (simp add: map_of_eq_None_iff)
  show ?case
    using Cons.IH [OF d(1), of "AList.update e1 c1 l"] n
    by (auto simp: p update_conv' split: option.splits)
qed

lemma lineRow_keeps_totals:
  assumes ev: "distinct evs" "e \<in> set evs" "length evs \<le> length cs"
    and new: "map_of (fd_lines fd) (parseInt ln) = None"
    and eq: "map_of (totals fd) e = Some (lineSum fd e)"
  shows "map_of (totals (lineRow evs ln cs fd)) e = Some (lineSum (lineRow evs ln cs fd) e)"
proof -
  let ?counts = "map parseInt (take (length evs) cs)"
  let ?ps = "zip evs ?counts"
  have len: "length ?counts = length evs" using ev(3) by simp
  have d: "distinct (map fst ?ps)" using ev(1) len by simp
  have "map fst ?ps = evs" using len by simp
  then have "fst ` set ?ps = set evs" by (metis set_map)
  then have "e \<in> fst ` set ?ps" using ev(2) by simp
  then obtain c where c: "map_of ?ps e = Some c" by (metis map_of_eq_None_iff not_None_eq)
  let ?new = "\<lparr>ld_counts = assignAll evs ?counts [], ld_executed = list_ex isPositive ?counts\<rparr>"
  have t: "map_of (totals (lineRow evs ln cs fd)) e = Some (jsAdd (lineSum fd e) c)"
    using fold_plusAssign [OF d, of "totals fd" e] c eq by (simp add: lineRow_def Let_def)
  have l: "fd_lines (lineRow evs ln cs fd) = AList.update (parseInt ln) ?new (fd_lines fd)"
    by (simp add: lineRow_def Let_def)
  have "countOf e (parseInt ln, ?new) = c"
    using fold_assign [OF d, of "[]" e] c by (simp add: countOf_def assignAll_def)
  then have "lineSum (lineRow evs ln cs fd) e = jsAdd (lineSum fd e) c"
    using sum_update_none [OF new, of "Num 0" e ?new] by (simp add: lineSum_alt l)
  then show ?thesis using t by simp
qed

text \<open>
  C3. The exclusive total of an event is claimed to be the sum of the line records'
  counts. In line mode a second row for the same line replaces the line record, while
  the totals are incremented by both rows. In the callgrind profile below the function
  \<open>f\<close> has the row \<open>5 1\<close> of its own file and, after \<open>fi=inl.h\<close>, the row \<open>5 2\<close> of
  inlined code: the total of \<open>Ir\<close> is 3 and the sum over the line records is 2. (In
  instruction mode the rows of one line are added up, and the two sides agree.)
\<close>

theorem repeated_line_totals_differ:
  "map_option (\<lambda>fd. (map_of (totals fd) ''Ir'', lineSum fd ''Ir''))
     (functionOf (projr (parse ''# callgrind format\<newline>events: Ir\<newline>fl=a.c\<newline>fn=f\<newline>5 1\<newline>fi=inl.h\<newline>5 2'')) ''a.c'' ''f'')
   = Some (Some (Num 3), Num 2)"
  by code_simp

subsection \<open>Call edges\<close>

text \<open>
  C4 (as stated, refuted). In scenario 3 the row \<open>0x2000 20 12 0\<close> after \<open>calls=\<close> is
  consumed as the source row of the edge and is not counted as a data row: the function
  has no line record for line 20, so line 20 does not bear \<open>Ir = 12\<close>.
\<close>

theorem call_row_line_record_counterexample:
  "map_option (\<lambda>fd. map_option (\<lambda>ld. map_of (ld_counts ld) ''Ir'') (map_of (fd_lines fd) (Num 20)))
     (functionOf (projr (parse ''# callgrind format\<newline>events: Ir Cy\<newline>positions: instr line\<newline>fl=a.c\<newline>fn=f\<newline>cfi=b.c\<newline>cfn=h\<newline>calls=3 0x2000\<newline>0x2000 20 12 0'')) ''a.c'' ''f'')
   \<noteq> Some (Some (Some (Num 12)))"
  by code_simp

text \<open>
  C4 (amended). In scenario 3 the function \<open>a.c:f\<close> has exactly one outgoing call edge,
  to file \<open>b.c\<close>, function \<open>h\<close>, with count 3 and source PC \<open>0x2000\<close>; the row after
  \<open>calls=\<close> creates no line record (there is none for line 20, and none at all).
\<close>

theorem call_edge_attached:
  "map_option (\<lambda>fd. (fd_calls fd, map_of (fd_lines fd) (Num 20), fd_lines fd))
     (functionOf (projr (parse ''# callgrind format\<newline>events: Ir Cy\<newline>positions: instr line\<newline>fl=a.c\<newline>fn=f\<newline>cfi=b.c\<newline>cfn=h\<newline>calls=3 0x2000\<newline>0x2000 20 12 0'')) ''a.c'' ''f'')
   = Some (Some [\<lparr>targetFile = Some ''b.c'', targetFunction = Some ''h'', ci_count = 3, sourcePc = ''0x2000''\<rparr>],
           None, [])"
  by code_simp

subsection \<open>PC records\<close>



section \<open>Properties of the call tree\<close>

subsection \<open>Subtree materialization\<close>



lemma height_withCallCount [simp]: "height (withCallCount c n) = height n"
  by (cases n) (simp add: withCallCount_def)

lemma height_stubNode [simp]: "height (stubNode nid f name call) = 1"
  by (simp add: stubNode_def)







subsection \<open>The PC range of a node\<close>







section \<open>Properties of the search index\<close>

lemma set_setAdd [simp]: "set (setAdd x xs) = insert x (set xs)"
  by (auto simp: setAdd_def)

lemma set_setAddAll [simp]: "set (setAddAll ys xs) = set xs \<union> set ys"
  unfolding setAddAll_def by (induction ys arbitrary: xs) auto

lemma lookupT_addToIndex:
  "set (lookupT (addToIndex t m idx) k) = (if k = t then insert m (set (lookupT idx k)) else set (lookupT idx k))"
  by (auto simp: lookupT_def addToIndex_def update_conv' split: option.splits)

lemma isIndexed_addToIndex: "isIndexed (addToIndex t m idx) n \<longleftrightarrow> n = m \<or> isIndexed idx n"
  by (auto simp: isIndexed_def addToIndex_def update_conv')

lemma filed_add_more:
  "filed idx \<Longrightarrow> isIndexed idx node \<Longrightarrow> filed (foldl (\<lambda>acc t. addToIndex t node acc) idx ts)"
proof (induction ts arbitrary: idx)
  case Nil
  then show ?case by simp
next
  case (Cons t ts)
  have "filed (addToIndex t node idx)"
    using Cons.prems by (auto simp: filed_def isIndexed_addToIndex lookupT_addToIndex)
  moreover have "isIndexed (addToIndex t node idx) node" by (simp add: isIndexed_addToIndex)
  ultimately show ?case using Cons.IH by simp
qed

lemma filed_add_first:
  assumes "filed idx"
  shows "filed (addToIndex (toLowerCase (functionName node)) node idx)"
  using assms by (auto simp: filed_def isIndexed_addToIndex lookupT_addToIndex)

lemma nodeTerms_first: "nodeTerms name = toLowerCase name # tl (nodeTerms name)"
  by (simp add: nodeTerms_def Let_def)

lemma filed_node:
  assumes "filed idx"
  shows "filed (foldl (\<lambda>acc t. addToIndex t node acc) idx (nodeTerms (functionName node)))"
proof -
  have "foldl (\<lambda>acc t. addToIndex t node acc) idx (nodeTerms (functionName node))
        = foldl (\<lambda>acc t. addToIndex t node acc)
            (addToIndex (toLowerCase (functionName node)) node idx)
            (tl (nodeTerms (functionName node)))"
    by (subst nodeTerms_first) simp
  moreover have "isIndexed (addToIndex (toLowerCase (functionName node)) node idx) node"
    by (simp add: isIndexed_addToIndex)
  ultimately show ?thesis
    using filed_add_more [OF filed_add_first [OF assms]] by simp
qed

lemma filed_index:
  "filed (snd st) \<Longrightarrow> filed (snd (indexNode n depth st))"
  "filed (snd st) \<Longrightarrow> filed (snd (indexNodes ns depth st))"
proof (induction n depth st and ns depth st rule: indexNode_indexNodes.induct)
  case (1 i f fl ps pe c t s kids cs depth visited idx)
  show ?case
  proof (cases "100 < depth \<or> i \<in> set visited")
    case True
    then show ?thesis using 1(2) by simp
  next
    case False
    have "filed (foldl (\<lambda>acc term. addToIndex term (CallTreeNode i f fl ps pe c t s kids cs) acc)
                   idx (nodeTerms f))"
      using filed_node [of idx "CallTreeNode i f fl ps pe c t s kids cs"] 1(2) by simp
    then show ?thesis using False 1(1) by simp
  qed
next
  case (2 depth st)
  then show ?case by simp
next
  case (3 k ks depth st)
  then show ?case by simp
qed

lemma filed_buildSearchIndex: "filed (buildSearchIndex nodes)"
  unfolding buildSearchIndex_def
  by (rule filed_index(2)) (simp add: filed_def isIndexed_def emptySearchIndex_def)

lemma isWhiteSpace_code: "isWhiteSpace c \<longleftrightarrow> (of_char c :: nat) \<in> {32, 9, 10, 11, 12, 13}"
proof -
  have e: "\<And>d. (c = d) = ((of_char c :: nat) = of_char d)" by simp
  show ?thesis unfolding isWhiteSpace_def e by simp
qed

lemma isWhiteSpace_toLowerChar [simp]: "isWhiteSpace (toLowerChar c) = isWhiteSpace c"
  by (auto simp: isWhiteSpace_code toLowerChar_def Let_def)

lemma trim_toLowerCase: "trim (toLowerCase s) = toLowerCase (trim s)"
  by (simp add: trim_def toLowerCase_def rev_map dropWhile_map comp_def)

lemma phase_keeps:
  "x \<in> set acc \<Longrightarrow>
   x \<in> set (foldl (\<lambda>acc (indexedTerm, ns). if P indexedTerm then setAddAll ns acc else acc) acc l)"
  by (induction l arbitrary: acc) (auto split: prod.splits)

lemma search_direct:
  assumes "searchTerm \<noteq> []" and "trim searchTerm \<noteq> []"
    and "n \<in> set (lookupT idx (trim (toLowerCase searchTerm)))"
  shows "n \<in> set (search idx searchTerm)"
proof -
  let ?t = "trim (toLowerCase searchTerm)"
  let ?r1 = "setAddAll (case map_of (termToNodes idx) ?t of None \<Rightarrow> [] | Some ns \<Rightarrow> ns) []"
  have 1: "n \<in> set ?r1" using assms(3) by (simp add: lookupT_def)
  let ?r2 = "if length ?r1 < 10
             then foldl (\<lambda>acc (indexedTerm, ns). if startsWith indexedTerm ?t then setAddAll ns acc else acc)
                    ?r1 (termToNodes idx)
             else ?r1"
  have 2: "n \<in> set ?r2" using 1 phase_keeps [of n ?r1 "\<lambda>it. startsWith it ?t"] by simp
  let ?r3 = "if length ?r2 < 5
             then foldl (\<lambda>acc (indexedTerm, ns).
                           if \<not> startsWith indexedTerm ?t \<and> includesStr indexedTerm ?t
                           then setAddAll ns acc else acc)
                    ?r2 (termToNodes idx)
             else ?r2"
  have 3: "n \<in> set ?r3"
    using 2 phase_keeps [of n ?r2 "\<lambda>it. \<not> startsWith it ?t \<and> includesStr it ?t"]
    by (simp del: set_setAddAll)
  have "search idx searchTerm = ?r3" using assms(1,2) by (simp add: search_def Let_def)
  then show ?thesis using 3 by simp
qed

text \<open>
  C8 (amended). The search returns the empty set for the empty query, and for every
  indexed node whose function name is not empty and has no leading or trailing white
  space, searching for that exact name returns a set containing the node (whatever the
  length of the name).
\<close>

theorem search_finds_indexed_node:
  "search (buildSearchIndex nodes) [] = []
   \<and> (isIndexed (buildSearchIndex nodes) n \<and> functionName n \<noteq> []
        \<and> trim (functionName n) = functionName n
      \<longrightarrow> n \<in> set (search (buildSearchIndex nodes) (functionName n)))"
proof (intro conjI impI)
  show "search (buildSearchIndex nodes) [] = []" by (simp add: search_def)
next
  assume a: "isIndexed (buildSearchIndex nodes) n \<and> functionName n \<noteq> []
             \<and> trim (functionName n) = functionName n"
  then have "n \<in> set (lookupT (buildSearchIndex nodes) (toLowerCase (functionName n)))"
    using filed_buildSearchIndex [of nodes] by (simp add: filed_def)
  moreover have "trim (toLowerCase (functionName n)) = toLowerCase (functionName n)"
    using a by (simp add: trim_toLowerCase)
  ultimately show "n \<in> set (search (buildSearchIndex nodes) (functionName n))"
    using a search_direct [where searchTerm = "functionName n" and idx = "buildSearchIndex nodes" and n = n]
    by simp
qed


theorem search_finds_indexed_node_witness:
  "isIndexed (buildSearchIndex [CallTreeNode ''node-0'' ''handle_timer_interrupt'' ''a.c'' [] [] 1 (Num 0) (Num 0) [] None, CallTreeNode ''node-1'' ''handle_io_complete'' ''a.c'' [] [] 1 (Num 0) (Num 0) [] None, CallTreeNode ''node-2'' ''update_system_timers'' ''a.c'' [] [] 1 (Num 0) (Num 0) [] None])
     (CallTreeNode ''node-0'' ''handle_timer_interrupt'' ''a.c'' [] [] 1 (Num 0) (Num 0) [] None)
   \<and> functionName (CallTreeNode ''node-0'' ''handle_timer_interrupt'' ''a.c'' [] [] 1 (Num 0) (Num 0) [] None) \<noteq> []
   \<and> trim (functionName (CallTreeNode ''node-0'' ''handle_timer_interrupt'' ''a.c'' [] [] 1 (Num 0) (Num 0) [] None))
       = functionName (CallTreeNode ''node-0'' ''handle_timer_interrupt'' ''a.c'' [] [] 1 (Num 0) (Num 0) [] None)
   \<and> CallTreeNode ''node-0'' ''handle_timer_interrupt'' ''a.c'' [] [] 1 (Num 0) (Num 0) [] None
       \<in> set (search (buildSearchIndex [CallTreeNode ''node-0'' ''handle_timer_interrupt'' ''a.c'' [] [] 1 (Num 0) (Num 0) [] None, CallTreeNode ''node-1'' ''handle_io_complete'' ''a.c'' [] [] 1 (Num 0) (Num 0) [] None, CallTreeNode ''node-2'' ''update_system_timers'' ''a.c'' [] [] 1 (Num 0) (Num 0) [] None]) ''handle_timer_interrupt'')"
  (is "?i \<and> ?ne \<and> ?t \<and> ?r")
proof -
  have i: ?i by code_simp
  have ne: ?ne by simp
  have t: ?t by code_simp
  from search_finds_indexed_node [of "[CallTreeNode ''node-0'' ''handle_timer_interrupt'' ''a.c'' [] [] 1 (Num 0) (Num 0) [] None, CallTreeNode ''node-1'' ''handle_io_complete'' ''a.c'' [] [] 1 (Num 0) (Num 0) [] None, CallTreeNode ''node-2'' ''update_system_timers'' ''a.c'' [] [] 1 (Num 0) (Num 0) [] None]" "CallTreeNode ''node-0'' ''handle_timer_interrupt'' ''a.c'' [] [] 1 (Num 0) (Num 0) [] None"] i ne t
  have ?r by simp
  with i ne t show ?thesis by blast
qed

text \<open>
  C8 (as stated, refuted). The query is trimmed and the indexed name is not. A node
  named \<open>abcd_efgh\<close> after a leading space is filed under no term equal to
  \<open>abcd_efgh\<close>; with five other nodes of that name the exact lookup already gives five
  results, the substring pass is skipped, and the node is not found by its own name.
\<close>

theorem search_misses_crowded_name:
  "isIndexed
     (buildSearchIndex
       [CallTreeNode ''node-0'' ''abcd_efgh'' ''a.c'' [] [] 1 (Num 0) (Num 0) [] None,
      CallTreeNode ''node-1'' ''abcd_efgh'' ''a.c'' [] [] 1 (Num 0) (Num 0) [] None,
      CallTreeNode ''node-2'' ''abcd_efgh'' ''a.c'' [] [] 1 (Num 0) (Num 0) [] None,
      CallTreeNode ''node-3'' ''abcd_efgh'' ''a.c'' [] [] 1 (Num 0) (Num 0) [] None,
      CallTreeNode ''node-4'' ''abcd_efgh'' ''a.c'' [] [] 1 (Num 0) (Num 0) [] None,
      CallTreeNode ''node-5'' '' abcd_efgh'' ''a.c'' [] [] 1 (Num 0) (Num 0) [] None])
     (CallTreeNode ''node-5'' '' abcd_efgh'' ''a.c'' [] [] 1 (Num 0) (Num 0) [] None)
   \<and> length (functionName (CallTreeNode ''node-5'' '' abcd_efgh'' ''a.c'' [] [] 1 (Num 0) (Num 0) [] None)) \<le> 32
   \<and> CallTreeNode ''node-5'' '' abcd_efgh'' ''a.c'' [] [] 1 (Num 0) (Num 0) [] None
       \<notin> set (search
                (buildSearchIndex
                  [CallTreeNode ''node-0'' ''abcd_efgh'' ''a.c'' [] [] 1 (Num 0) (Num 0) [] None,
      CallTreeNode ''node-1'' ''abcd_efgh'' ''a.c'' [] [] 1 (Num 0) (Num 0) [] None,
      CallTreeNode ''node-2'' ''abcd_efgh'' ''a.c'' [] [] 1 (Num 0) (Num 0) [] None,
      CallTreeNode ''node-3'' ''abcd_efgh'' ''a.c'' [] [] 1 (Num 0) (Num 0) [] None,
      CallTreeNode ''node-4'' ''abcd_efgh'' ''a.c'' [] [] 1 (Num 0) (Num 0) [] None,
      CallTreeNode ''node-5'' '' abcd_efgh'' ''a.c'' [] [] 1 (Num 0) (Num 0) [] None])
                (functionName (CallTreeNode ''node-5'' '' abcd_efgh'' ''a.c'' [] [] 1 (Num 0) (Num 0) [] None)))"
  by code_simp

section \<open>Properties of the entry-point matcher\<close>

subsection \<open>The built index\<close>







subsection \<open>Sorting keeps the ranges apart\<close>













subsection \<open>Hexadecimal strings\<close>

lemma of_char_toLowerChar:
  "(of_char (toLowerChar c) :: nat)
   = (if 65 \<le> (of_char c :: nat) \<and> (of_char c :: nat) \<le> 90 then of_char c + 32 else of_char c)"
  by (simp add: toLowerChar_def Let_def)

lemma digitValue_toLowerChar [simp]: "digitValue (toLowerChar c) = digitValue c"
  unfolding digitValue_def Let_def of_char_toLowerChar by auto

lemma isDigitIn_toLowerChar [simp]: "isDigitIn r (toLowerChar c) = isDigitIn r c"
  by (simp add: isDigitIn_def)

lemma digitsValue_toLowerCase [simp]: "digitsValue r (toLowerCase z) = digitsValue r z"
proof -
  have "foldl (\<lambda>acc c. acc * r + (case digitValue c of None \<Rightarrow> 0 | Some d \<Rightarrow> d)) a (map toLowerChar z)
        = foldl (\<lambda>acc c. acc * r + (case digitValue c of None \<Rightarrow> 0 | Some d \<Rightarrow> d)) a z" for a
    by (induction z arbitrary: a) simp_all
  then show ?thesis by (simp add: digitsValue_def toLowerCase_def)
qed

lemma char_eq_code: "(c = d) = ((of_char c :: nat) = of_char d)"
  by simp

lemma toLowerChar_eq_sign [simp]:
  "toLowerChar c = CHR ''-'' \<longleftrightarrow> c = CHR ''-''"
  "toLowerChar c = CHR ''+'' \<longleftrightarrow> c = CHR ''+''"
  "toLowerChar c = CHR ''0'' \<longleftrightarrow> c = CHR ''0''"
  "toLowerChar c = CHR ''x'' \<longleftrightarrow> c = CHR ''x'' \<or> c = CHR ''X''"
  "toLowerChar c \<noteq> CHR ''X''"
  unfolding char_eq_code [of _ "CHR ''-''"] char_eq_code [of _ "CHR ''+''"]
    char_eq_code [of _ "CHR ''0''"] char_eq_code [of _ "CHR ''x''"] char_eq_code [of _ "CHR ''X''"]
    of_char_toLowerChar
  by auto

lemma startsWith_lower_sign [simp]:
  "startsWith (map toLowerChar t) ''-'' = startsWith t ''-''"
  "startsWith (map toLowerChar t) ''+'' = startsWith t ''+''"
  by (cases t; simp add: startsWith_def)+

lemma startsWith_lower_0x [simp]:
  "startsWith (map toLowerChar t) ''0x'' = (startsWith t ''0x'' \<or> startsWith t ''0X'')"
  "startsWith (map toLowerChar t) ''0X'' = False"
proof -
  show "startsWith (map toLowerChar t) ''0x'' = (startsWith t ''0x'' \<or> startsWith t ''0X'')"
  proof (cases t)
    case Nil
    then show ?thesis by (simp add: startsWith_def)
  next
    case (Cons a r)
    then show ?thesis by (cases r) (auto simp: startsWith_def)
  qed
  show "startsWith (map toLowerChar t) ''0X'' = False"
  proof (cases t)
    case Nil
    then show ?thesis by (simp add: startsWith_def)
  next
    case (Cons a r)
    then show ?thesis by (cases r) (auto simp: startsWith_def)
  qed
qed

lemma toLowerCase_eq_Nil [simp]: "toLowerCase z = [] \<longleftrightarrow> z = []"
  by (simp add: toLowerCase_def)


lemma isDigitIn_not_ws: "isDigitIn 16 c \<Longrightarrow> \<not> isWhiteSpace c"
  by (auto simp: isDigitIn_def digitValue_def isWhiteSpace_code Let_def split: if_splits)




lemma trim_Nil [simp]: "trim [] = []"
  by (simp add: trim_def)









text \<open>
  The other two conditions of the amended statement are needed as well. A query that is
  the name of a function resolves to that function, whatever its address: \<open>add\<close> is a
  hexadecimal numeral and a function name. A node whose PC end lies before its PC start
  (the PCs of a function are taken in the order of the profile) has no range, and is
  still found by its exact start.
\<close>

lemma name_and_reversed_range_cases:
  "findEntryNode (buildEntryIndex
     [CallTreeNode ''node-0'' ''add'' ''a.c'' ''0x1000'' ''0x1010'' 1 (Num 0) (Num 0) [] None,
      CallTreeNode ''node-1'' ''g'' ''a.c'' ''0x2000'' ''0x1000'' 1 (Num 0) (Num 0) [] None]) ''add''
   = Inr (Some (CallTreeNode ''node-0'' ''add'' ''a.c'' ''0x1000'' ''0x1010'' 1 (Num 0) (Num 0) [] None))
   \<and> matchesPc (trim ''add'') \<and> queryAddress ''add'' = Num 2781
   \<and> \<not> inPcRange (queryAddress ''add'')
         (CallTreeNode ''node-0'' ''add'' ''a.c'' ''0x1000'' ''0x1010'' 1 (Num 0) (Num 0) [] None)
   \<and> findEntryNode (buildEntryIndex
     [CallTreeNode ''node-0'' ''add'' ''a.c'' ''0x1000'' ''0x1010'' 1 (Num 0) (Num 0) [] None,
      CallTreeNode ''node-1'' ''g'' ''a.c'' ''0x2000'' ''0x1000'' 1 (Num 0) (Num 0) [] None]) ''0x2000''
   = Inr (Some (CallTreeNode ''node-1'' ''g'' ''a.c'' ''0x2000'' ''0x1000'' 1 (Num 0) (Num 0) [] None))
   \<and> \<not> inPcRange (queryAddress ''0x2000'')
         (CallTreeNode ''node-1'' ''g'' ''a.c'' ''0x2000'' ''0x1000'' 1 (Num 0) (Num 0) [] None)"
  by code_simp

end
